theory Spec2Isabelle
  imports Main "HOL-Library.Word"
begin

section \<open>The node-mlx native binding (src/native/src/binding.cc)\<close>

text \<open>
  The binding is a Node addon with six file-level function pointers and one library
  handle. Its exported functions open a dynamic library, resolve six entry points and
  forward calls through them. The embedding keeps the globals as fields of one record,
  passes that record through every exported function, and records every call that
  leaves the binding (loader calls, native entry points, reads of native memory) in a
  trace, so that "no native call", "freed exactly once" and "copied before release" are
  statements about that trace.
\<close>

subsection \<open>Values crossing the boundary\<close>

type_synonym address = nat

type_synonym int32_t = "32 word"
  \<comment> \<open>read as two's complement with \<open>sint\<close>\<close>

text \<open>A C \<open>float\<close>, kept as its IEEE-754 binary32 bit pattern; no arithmetic is done on it.\<close>

datatype c_float = Float32 (bits: "32 word")

definition float_0_7f :: c_float where
  \<comment> \<open>the literal \<open>0.7f\<close>\<close>
  "float_0_7f = Float32 0x3F333333"

definition float_0_9f :: c_float where
  \<comment> \<open>the literal \<open>0.9f\<close>\<close>
  "float_0_9f = Float32 0x3F666666"

text \<open>
  A JavaScript number is a double. The binding reads it only through
  \<open>Int32Value()\<close> and \<open>FloatValue()\<close> of node-addon-api, which is not part of the
  sources; a number is therefore given by what these two conversions return for it.
\<close>

datatype js_number = JsDouble (Int32Value: int32_t) (FloatValue: c_float)

datatype js_value =
    JsUndefined
  | JsNull
  | JsBoolean bool
  | JsNumber js_number
  | JsString string
  | JsObject "(string \<times> js_value) list"

text \<open>\<open>options.Has(key)\<close> and \<open>options.Get(key)\<close> on the own properties of an object.\<close>

definition Has :: "(string \<times> js_value) list \<Rightarrow> string \<Rightarrow> bool" where
  "Has ps k = (map_of ps k \<noteq> None)"

definition Get :: "(string \<times> js_value) list \<Rightarrow> string \<Rightarrow> js_value" where
  "Get ps k = (case map_of ps k of Some v \<Rightarrow> v | None \<Rightarrow> JsUndefined)"

text \<open>
  \<open>std::string::c_str()\<close> handed to a C function: the callee reads up to the first NUL.
\<close>

definition c_str :: "string \<Rightarrow> string" where
  "c_str s = takeWhile (\<lambda>c. c \<noteq> CHR 0x00) s"

text \<open>
  A non-null \<open>char*\<close> returned by the library: where it points and the text stored
  there up to the terminator. The null pointer is \<open>None\<close>.
\<close>

record c_string =
  addr :: address
  chars :: string

text \<open>What an exported function hands back to JavaScript.\<close>

datatype napi_value =
    Boolean_New bool
  | Number_New int32_t
  | String_New string
  | Env_Null
  | Env_Undefined

datatype js_exception = Error string | TypeError string

text \<open>
  The result of one exported call as the JavaScript caller sees it. After
  \<open>ThrowAsJavaScriptException()\<close> the caller sees the exception, whatever the C++
  function returns. \<open>Undefined_Behaviour\<close> is a call through a null function pointer
  or through a pointer into a library that has been closed.
\<close>

datatype outcome = Returned napi_value | Thrown js_exception | Undefined_Behaviour

subsection \<open>The world outside the binding\<close>

datatype event =
    DlOpen string "address option"
  | DlSym address string
  | DlClose address
  | Native_load_model string
  | Native_unload_model int32_t
  | Native_generate int32_t string int32_t c_float c_float
  | Native_free_string address
  | Native_is_available
  | Native_version
  | Copy_c_string address

text \<open>
  The six function pointer types. What an entry point returns may depend on everything
  that happened before the call (the library has state of its own), so each takes the
  trace so far. The two \<open>void\<close> entry points return nothing.
\<close>

type_synonym LoadModelFn = "event list \<Rightarrow> string \<Rightarrow> int32_t"
type_synonym UnloadModelFn = unit
type_synonym GenerateFn =
  "event list \<Rightarrow> int32_t \<Rightarrow> string \<Rightarrow> int32_t \<Rightarrow> c_float \<Rightarrow> c_float \<Rightarrow> c_string option"
type_synonym FreeStringFn = unit
type_synonym IsAvailableFn = "event list \<Rightarrow> bool"
type_synonym GetVersionFn = "event list \<Rightarrow> c_string option"

text \<open>A dynamic library: for each of the six symbol names, the function it exports, if any.\<close>

record native_lib =
  node_mlx_load_model :: "LoadModelFn option"
  node_mlx_unload_model :: "UnloadModelFn option"
  node_mlx_generate :: "GenerateFn option"
  node_mlx_free_string :: "FreeStringFn option"
  node_mlx_is_available :: "IsAvailableFn option"
  node_mlx_version :: "GetVersionFn option"

text \<open>
  The dynamic loader and the build target. \<open>dlopen\<close> yields either the text of
  \<open>dlerror()\<close> or a handle with the library behind it; \<open>apple_arm64\<close> is the value of
  \<open>defined(__APPLE__) && defined(__arm64__)\<close>.
\<close>

record environment =
  dlopen :: "event list \<Rightarrow> string \<Rightarrow> string + address \<times> native_lib"
  apple_arm64 :: bool

text \<open>
  A resolved function pointer: the handle of the library it points into, and the
  function. \<open>None\<close> is \<open>nullptr\<close>.
\<close>

type_synonym 'f fn_ptr = "(address \<times> 'f) option"

definition dlsym :: "address \<Rightarrow> 'f option \<Rightarrow> 'f fn_ptr" where
  "dlsym h entry = (case entry of None \<Rightarrow> None | Some f \<Rightarrow> Some (h, f))"

subsection \<open>Process state\<close>

text \<open>
  The seven \<open>static\<close> variables of binding.cc, the set of library handles currently
  open in the process, and the trace.
\<close>

record process =
  dylib_handle :: "address option"
  fn_load_model :: "LoadModelFn fn_ptr"
  fn_unload_model :: "UnloadModelFn fn_ptr"
  fn_generate :: "GenerateFn fn_ptr"
  fn_free_string :: "FreeStringFn fn_ptr"
  fn_is_available :: "IsAvailableFn fn_ptr"
  fn_get_version :: "GetVersionFn fn_ptr"
  open_libs :: "address set"
  trace :: "event list"

definition initial_process :: process where
  "initial_process =
     \<lparr>dylib_handle = None, fn_load_model = None, fn_unload_model = None,
      fn_generate = None, fn_free_string = None, fn_is_available = None,
      fn_get_version = None, open_libs = {}, trace = []\<rparr>"

definition emit :: "event list \<Rightarrow> process \<Rightarrow> process" where
  "emit es p = p\<lparr>trace := trace p @ es\<rparr>"

subsection \<open>The exported functions\<close>

text \<open>
  \<open>Initialize\<close>. The six \<open>dlsym\<close> results are stored before the mandatory three are
  checked; the failure branch closes the library and clears \<open>dylib_handle\<close> only.
\<close>

definition missing_symbols :: "process \<Rightarrow> string" where
  "missing_symbols p =
     (if fn_load_model p = None then ''node_mlx_load_model '' else []) @
     (if fn_generate p = None then ''node_mlx_generate '' else []) @
     (if fn_free_string p = None then ''node_mlx_free_string '' else [])"

definition resolve :: "address \<Rightarrow> native_lib \<Rightarrow> process \<Rightarrow> process" where
  "resolve h lib p =
     emit [DlSym h ''node_mlx_load_model'', DlSym h ''node_mlx_unload_model'',
           DlSym h ''node_mlx_generate'', DlSym h ''node_mlx_free_string'',
           DlSym h ''node_mlx_is_available'', DlSym h ''node_mlx_version'']
       (p\<lparr>fn_load_model := dlsym h (node_mlx_load_model lib),
          fn_unload_model := dlsym h (node_mlx_unload_model lib),
          fn_generate := dlsym h (node_mlx_generate lib),
          fn_free_string := dlsym h (node_mlx_free_string lib),
          fn_is_available := dlsym h (node_mlx_is_available lib),
          fn_get_version := dlsym h (node_mlx_version lib)\<rparr>)"

definition dlclose :: "address \<Rightarrow> process \<Rightarrow> process" where
  "dlclose h p = emit [DlClose h] (p\<lparr>open_libs := open_libs p - {h}\<rparr>)"

definition Initialize :: "environment \<Rightarrow> js_value list \<Rightarrow> process \<Rightarrow> outcome \<times> process" where
  "Initialize env info p =
     (if dylib_handle p \<noteq> None then (Returned (Boolean_New True), p)
      else case info of
        JsString dylibPath # rest \<Rightarrow>
          (case dlopen env (trace p) (c_str dylibPath) of
             Inl diag \<Rightarrow>
               (Thrown (Error (''Failed to load dylib at '' @ dylibPath @ '': '' @ diag)),
                emit [DlOpen (c_str dylibPath) None] (p\<lparr>dylib_handle := None\<rparr>))
           | Inr (h, lib) \<Rightarrow>
               (let p1 = emit [DlOpen (c_str dylibPath) (Some h)]
                           (p\<lparr>dylib_handle := Some h, open_libs := insert h (open_libs p)\<rparr>);
                    p2 = resolve h lib p1
                in if fn_load_model p2 = None \<or> fn_generate p2 = None \<or> fn_free_string p2 = None
                   then (Thrown (Error (''Failed to load functions: '' @ missing_symbols p2)),
                         (dlclose h p2)\<lparr>dylib_handle := None\<rparr>)
                   else (Returned (Boolean_New True), p2)))
      | _ \<Rightarrow> (Thrown (Error ''dylibPath argument required''), p))"

definition IsInitialized :: "js_value list \<Rightarrow> process \<Rightarrow> outcome \<times> process" where
  "IsInitialized info p = (Returned (Boolean_New (dylib_handle p \<noteq> None)), p)"

text \<open>
  A call through a function pointer. The pointer is known to be non-null where this is
  used; the call is defined only while the library it points into is open.
\<close>

definition callable :: "process \<Rightarrow> address \<Rightarrow> bool" where
  "callable p h = (h \<in> open_libs p)"

text \<open>
  The three statements that end both \<open>Generate\<close> and \<open>GetVersion\<close> once the
  library has returned a non-null string: construct a \<open>std::string\<close> from the pointer,
  call \<open>fn_free_string\<close> on the pointer, return the copy. \<open>fn_free_string\<close> is called
  without a null check.
\<close>

definition copy_free_return :: "c_string \<Rightarrow> process \<Rightarrow> outcome \<times> process" where
  "copy_free_return cs p =
     (let p1 = emit [Copy_c_string (addr cs)] p
      in case fn_free_string p1 of
           None \<Rightarrow> (Undefined_Behaviour, p1)
         | Some (h, g) \<Rightarrow>
             if \<not> callable p1 h then (Undefined_Behaviour, p1)
             else (Returned (String_New (chars cs)), emit [Native_free_string (addr cs)] p1))"

definition LoadModel :: "js_value list \<Rightarrow> process \<Rightarrow> outcome \<times> process" where
  "LoadModel info p =
     (case fn_load_model p of
        None \<Rightarrow> (Thrown (Error ''Library not initialized. Call initialize() first.''), p)
      | Some (h, f) \<Rightarrow>
          (case info of
             JsString modelId # rest \<Rightarrow>
               if \<not> callable p h then (Undefined_Behaviour, p)
               else
                 (let handle = f (trace p) (c_str modelId);
                      p1 = emit [Native_load_model (c_str modelId)] p
                  in if sint handle < 0
                     then (Thrown (Error (''Failed to load model: '' @ modelId)), p1)
                     else (Returned (Number_New handle), p1))
           | _ \<Rightarrow> (Thrown (TypeError ''Model ID string required''), p)))"

definition UnloadModel :: "js_value list \<Rightarrow> process \<Rightarrow> outcome \<times> process" where
  "UnloadModel info p =
     (case fn_unload_model p of
        None \<Rightarrow> (Thrown (Error ''Library not initialized''), p)
      | Some (h, f) \<Rightarrow>
          (case info of
             JsNumber n # rest \<Rightarrow>
               if \<not> callable p h then (Undefined_Behaviour, p)
               else (Returned Env_Undefined, emit [Native_unload_model (Int32Value n)] p)
           | _ \<Rightarrow> (Thrown (TypeError ''Model handle number required''), p)))"

text \<open>
  The options of \<open>generate\<close>, read in the order of the source: each of the three keys
  replaces its default when the object has it. \<open>options.Get(k).As<Napi::Number>()\<close> does
  not check the type; the conversion that follows fails inside node-addon-api when the
  value is not a number. That failure is the \<open>None\<close> below. How the call goes on from
  there is decided by the build of node-addon-api, which is not part of the sources;
  \<open>Generate\<close> ends the call with the exception of node-addon-api. The properties
  proved about \<open>Generate\<close> are about options that hold numbers.
\<close>

record gen_options =
  maxTokens :: int32_t
  temperature :: c_float
  topP :: c_float

definition default_options :: gen_options where
  "default_options = \<lparr>maxTokens = 256, temperature = float_0_7f, topP = float_0_9f\<rparr>"

fun As_Number :: "js_value \<Rightarrow> js_number option" where
  "As_Number (JsNumber n) = Some n"
| "As_Number v = None"

definition parse_options :: "js_value list \<Rightarrow> gen_options option" where
  "parse_options info =
     (case drop 2 info of
        JsObject options # rest \<Rightarrow>
          (let o1 = (if Has options ''maxTokens''
                     then map_option (\<lambda>n. default_options\<lparr>maxTokens := Int32Value n\<rparr>)
                            (As_Number (Get options ''maxTokens''))
                     else Some default_options);
               o2 = (if Has options ''temperature''
                     then (case (o1, As_Number (Get options ''temperature'')) of
                             (Some r, Some n) \<Rightarrow> Some (r\<lparr>temperature := FloatValue n\<rparr>)
                           | _ \<Rightarrow> None)
                     else o1);
               o3 = (if Has options ''topP''
                     then (case (o2, As_Number (Get options ''topP'')) of
                             (Some r, Some n) \<Rightarrow> Some (r\<lparr>topP := FloatValue n\<rparr>)
                           | _ \<Rightarrow> None)
                     else o2)
           in o3)
      | _ \<Rightarrow> Some default_options)"

definition Generate :: "js_value list \<Rightarrow> process \<Rightarrow> outcome \<times> process" where
  "Generate info p =
     (case fn_generate p of
        None \<Rightarrow> (Thrown (Error ''Library not initialized''), p)
      | Some (h, f) \<Rightarrow>
          (case info of
             JsNumber n # JsString prompt # rest \<Rightarrow>
               (case parse_options info of
                  None \<Rightarrow> (Thrown (Error ''A number was expected''), p)
                | Some opts \<Rightarrow>
                    if \<not> callable p h then (Undefined_Behaviour, p)
                    else
                      (let handle = Int32Value n;
                           jsonResult = f (trace p) handle (c_str prompt) (maxTokens opts)
                                          (temperature opts) (topP opts);
                           p1 = emit [Native_generate handle (c_str prompt) (maxTokens opts)
                                        (temperature opts) (topP opts)] p
                       in case jsonResult of
                            None \<Rightarrow> (Thrown (Error ''Generate returned null''), p1)
                          | Some cs \<Rightarrow> copy_free_return cs p1))
           | _ \<Rightarrow> (Thrown (TypeError ''Usage: generate(handle, prompt, options?)''), p)))"

definition IsAvailable :: "environment \<Rightarrow> js_value list \<Rightarrow> process \<Rightarrow> outcome \<times> process" where
  "IsAvailable env info p =
     (case fn_is_available p of
        Some (h, f) \<Rightarrow>
          if \<not> callable p h then (Undefined_Behaviour, p)
          else (Returned (Boolean_New (f (trace p))), emit [Native_is_available] p)
      | None \<Rightarrow> (Returned (Boolean_New (apple_arm64 env)), p))"

definition GetVersion :: "js_value list \<Rightarrow> process \<Rightarrow> outcome \<times> process" where
  "GetVersion info p =
     (case fn_get_version p of
        Some (h, f) \<Rightarrow>
          if \<not> callable p h then (Undefined_Behaviour, p)
          else
            (let version = f (trace p);
                 p1 = emit [Native_version] p
             in case version of
                  Some cs \<Rightarrow> copy_free_return cs p1
                | None \<Rightarrow> (Returned (String_New ''0.1.0''), p1))
      | None \<Rightarrow> (Returned (String_New ''0.1.0''), p))"

subsection \<open>Sequences of calls on the module's exports\<close>

datatype api_call =
    Call_initialize "js_value list"
  | Call_isInitialized "js_value list"
  | Call_loadModel "js_value list"
  | Call_unloadModel "js_value list"
  | Call_generate "js_value list"
  | Call_isAvailable "js_value list"
  | Call_getVersion "js_value list"

fun exec :: "environment \<Rightarrow> api_call \<Rightarrow> process \<Rightarrow> outcome \<times> process" where
  "exec env (Call_initialize info) p = Initialize env info p"
| "exec env (Call_isInitialized info) p = IsInitialized info p"
| "exec env (Call_loadModel info) p = LoadModel info p"
| "exec env (Call_unloadModel info) p = UnloadModel info p"
| "exec env (Call_generate info) p = Generate info p"
| "exec env (Call_isAvailable info) p = IsAvailable env info p"
| "exec env (Call_getVersion info) p = GetVersion info p"

text \<open>
  A run of the process: the calls are made in order from a given state; nothing is
  executed after an undefined call.
\<close>

fun run :: "environment \<Rightarrow> api_call list \<Rightarrow> process \<Rightarrow> outcome list \<times> process" where
  "run env [] p = ([], p)"
| "run env (c # cs) p =
     (case exec env c p of
        (Undefined_Behaviour, p') \<Rightarrow> ([Undefined_Behaviour], p')
      | (out, p') \<Rightarrow> (case run env cs p' of (outs, p'') \<Rightarrow> (out # outs, p'')))"

definition state_after :: "environment \<Rightarrow> api_call list \<Rightarrow> process" where
  "state_after env calls = snd (run env calls initial_process)"

subsection \<open>Predicates on states and traces\<close>

text \<open>A function pointer is null or points into the library with handle \<open>h\<close>.\<close>

definition owned_by :: "address \<Rightarrow> 'f fn_ptr \<Rightarrow> bool" where
  "owned_by h ptr = (case ptr of None \<Rightarrow> True | Some (h', f) \<Rightarrow> h' = h)"

text \<open>
  The state a completed \<open>Initialize\<close> establishes: the handle is set, its library is open,
  the three mandatory pointers are set and every pointer points into that library.
\<close>

definition loaded :: "process \<Rightarrow> address \<Rightarrow> bool" where
  "loaded p h =
     (dylib_handle p = Some h \<and> h \<in> open_libs p \<and>
      fn_load_model p \<noteq> None \<and> fn_generate p \<noteq> None \<and> fn_free_string p \<noteq> None \<and>
      owned_by h (fn_load_model p) \<and> owned_by h (fn_unload_model p) \<and>
      owned_by h (fn_generate p) \<and> owned_by h (fn_free_string p) \<and>
      owned_by h (fn_is_available p) \<and> owned_by h (fn_get_version p))"

definition consistent :: "process \<Rightarrow> bool" where
  "consistent p = (case dylib_handle p of None \<Rightarrow> True | Some h \<Rightarrow> loaded p h)"

text \<open>No function pointer has ever been set.\<close>

definition unresolved :: "process \<Rightarrow> bool" where
  "unresolved p =
     (dylib_handle p = None \<and> fn_load_model p = None \<and> fn_unload_model p = None \<and>
      fn_generate p = None \<and> fn_free_string p = None \<and> fn_is_available p = None \<and>
      fn_get_version p = None)"

fun opened :: "event \<Rightarrow> bool" where
  "opened (DlOpen path (Some h)) = True"
| "opened e = False"

text \<open>No \<open>dlopen\<close> has succeeded so far.\<close>

definition never_opened :: "event list \<Rightarrow> bool" where
  "never_opened tr = (filter opened tr = [])"

fun loader_event :: "event \<Rightarrow> bool" where
  "loader_event (DlOpen path r) = True"
| "loader_event (DlSym h name) = True"
| "loader_event (DlClose h) = True"
| "loader_event e = False"


text \<open>\<open>q\<close> is \<open>p\<close> with more events in the trace, none of them a loader call.\<close>

definition extends :: "process \<Rightarrow> process \<Rightarrow> bool" where
  "extends p q = (\<exists>es. q = emit es p \<and> filter loader_event es = [])"



subsection \<open>The options as the specification reads them\<close>

text \<open>
  The optional parameter object of \<open>generate\<close>, and for a key the supplied value, or the
  default when the key is not supplied. The specification types the three recognized
  keys as numbers; \<open>number_if_supplied\<close> says that a key, where present, holds one.
\<close>

definition options_of :: "js_value list \<Rightarrow> (string \<times> js_value) list" where
  "options_of info = (case drop 2 info of JsObject options # rest \<Rightarrow> options | _ \<Rightarrow> [])"

definition option_int32 :: "(string \<times> js_value) list \<Rightarrow> string \<Rightarrow> int32_t \<Rightarrow> int32_t" where
  "option_int32 options k d =
     (case map_of options k of Some (JsNumber x) \<Rightarrow> Int32Value x | _ \<Rightarrow> d)"

definition option_float :: "(string \<times> js_value) list \<Rightarrow> string \<Rightarrow> c_float \<Rightarrow> c_float" where
  "option_float options k d =
     (case map_of options k of Some (JsNumber x) \<Rightarrow> FloatValue x | _ \<Rightarrow> d)"

definition number_if_supplied :: "(string \<times> js_value) list \<Rightarrow> string \<Rightarrow> bool" where
  "number_if_supplied options k =
     (case map_of options k of None \<Rightarrow> True | Some v \<Rightarrow> As_Number v \<noteq> None)"

definition recognized :: "string \<times> js_value \<Rightarrow> bool" where
  "recognized kv =
     (fst kv = ''maxTokens'' \<or> fst kv = ''temperature'' \<or> fst kv = ''topP'')"

subsection \<open>Sample libraries\<close>

text \<open>
  Three libraries and a loader that knows them, used to run the definitions on concrete
  inputs: one exports all six symbols, one only the mandatory three, and one lacks
  \<open>node_mlx_free_string\<close>.
\<close>

definition sample_load_model :: LoadModelFn where
  "sample_load_model tr model_id =
     (if model_id = ''good-id'' then 3 else if model_id = ''zero-id'' then 0 else - 1)"

definition sample_generate :: GenerateFn where
  "sample_generate tr handle prompt max_tokens temp top_p =
     (if handle = 3 then Some \<lparr>addr = 4096, chars = ''{success:true}''\<rparr> else None)"

definition sample_version :: GetVersionFn where
  "sample_version tr = Some \<lparr>addr = 8192, chars = ''1.2.3''\<rparr>"

definition full_lib :: native_lib where
  "full_lib =
     \<lparr>node_mlx_load_model = Some sample_load_model, node_mlx_unload_model = Some (),
      node_mlx_generate = Some sample_generate, node_mlx_free_string = Some (),
      node_mlx_is_available = Some (\<lambda>tr. True), node_mlx_version = Some sample_version\<rparr>"

definition minimal_lib :: native_lib where
  "minimal_lib =
     \<lparr>node_mlx_load_model = Some sample_load_model, node_mlx_unload_model = None,
      node_mlx_generate = Some sample_generate, node_mlx_free_string = Some (),
      node_mlx_is_available = None, node_mlx_version = None\<rparr>"

definition nofree_lib :: native_lib where
  "nofree_lib =
     \<lparr>node_mlx_load_model = Some sample_load_model, node_mlx_unload_model = Some (),
      node_mlx_generate = Some sample_generate, node_mlx_free_string = None,
      node_mlx_is_available = Some (\<lambda>tr. True), node_mlx_version = Some sample_version\<rparr>"

definition sample_env :: environment where
  "sample_env =
     \<lparr>dlopen = (\<lambda>tr path.
         if path = ''/lib/full.dylib'' then Inr (7, full_lib)
         else if path = ''/lib/minimal.dylib'' then Inr (8, minimal_lib)
         else if path = ''/lib/nofree.dylib'' then Inr (9, nofree_lib)
         else Inl ''image not found''),
      apple_arm64 = True\<rparr>"

text \<open>The states after one \<open>initialize\<close> call on each of the three libraries.\<close>

definition full_loaded :: process where
  "full_loaded = state_after sample_env [Call_initialize [JsString ''/lib/full.dylib'']]"

definition minimal_loaded :: process where
  "minimal_loaded = state_after sample_env [Call_initialize [JsString ''/lib/minimal.dylib'']]"

definition nofree_failed :: process where
  "nofree_failed = state_after sample_env [Call_initialize [JsString ''/lib/nofree.dylib'']]"

text \<open>
  The state after a failed \<open>dlopen\<close>, a call without arguments and a \<open>loadModel\<close>,
  and the state right after one failed \<open>dlopen\<close>.
\<close>

definition never_loaded :: process where
  "never_loaded =
     state_after sample_env
       [Call_initialize [JsString ''/missing.dylib''], Call_initialize [],
        Call_loadModel [JsString ''good-id'']]"

definition open_failed :: process where
  "open_failed = emit [DlOpen (c_str ''/missing.dylib'') None] initial_process"

section \<open>Properties\<close>

text \<open>
  Helper facts first: how the trace grows, which function writes which global, and the
  invariants of every state reached from the initial one. The statements about the
  behaviour of the binding follow in the last section.
\<close>

subsection \<open>Basic facts\<close>

lemma emit_Nil: "emit [] p = p"
  by (simp add: emit_def)

lemma emit_emit: "emit es (emit ds p) = emit (ds @ es) p"
  by (simp add: emit_def)

lemma emit_fields:
  "dylib_handle (emit es p) = dylib_handle p"
  "fn_load_model (emit es p) = fn_load_model p"
  "fn_unload_model (emit es p) = fn_unload_model p"
  "fn_generate (emit es p) = fn_generate p"
  "fn_free_string (emit es p) = fn_free_string p"
  "fn_is_available (emit es p) = fn_is_available p"
  "fn_get_version (emit es p) = fn_get_version p"
  "open_libs (emit es p) = open_libs p"
  "trace (emit es p) = trace p @ es"
  by (simp_all add: emit_def)

lemma callable_emit: "callable (emit es p) h = callable p h"
  by (simp add: callable_def emit_fields)

lemma owned_by_dlsym: "owned_by h (dlsym h entry)"
  by (simp add: owned_by_def dlsym_def split: option.splits)

lemma dlsym_eq_None: "dlsym h entry = None \<longleftrightarrow> entry = None"
  by (simp add: dlsym_def split: option.splits)

lemma loaded_emit: "loaded (emit es p) h = loaded p h"
  by (simp add: loaded_def emit_fields)

lemma consistent_emit: "consistent (emit es p) = consistent p"
  by (simp add: consistent_def loaded_emit emit_fields split: option.splits)

lemma unresolved_emit: "unresolved (emit es p) = unresolved p"
  by (simp add: unresolved_def emit_fields)

lemma update_dylib_handle_same: "dylib_handle p = x \<Longrightarrow> p\<lparr>dylib_handle := x\<rparr> = p"
  by (cases p) simp

lemma dylib_handle_resolve: "dylib_handle (resolve h lib p) = dylib_handle p"
  by (simp add: resolve_def emit_fields)

subsection \<open>Only \<open>Initialize\<close> writes the globals\<close>

text \<open>
  Every other exported function leaves the seven globals and the set of open libraries
  as they are and appends events that are not loader calls.
\<close>

lemma extends_refl: "extends p p"
  unfolding extends_def by (rule exI [of _ "[]"]) (simp add: emit_Nil)

lemma extends_emit: "filter loader_event es = [] \<Longrightarrow> extends p (emit es p)"
  unfolding extends_def by blast

lemma extends_trans: "extends p q \<Longrightarrow> extends q r \<Longrightarrow> extends p r"
  unfolding extends_def by (auto simp: emit_emit)

lemma copy_free_return_extends: "extends p (snd (copy_free_return cs p))"
proof -
  have a: "extends p (emit [Copy_c_string (addr cs)] p)"
    by (rule extends_emit) simp
  have b: "extends p (emit [Copy_c_string (addr cs), Native_free_string (addr cs)] p)"
    by (rule extends_emit) simp
  show ?thesis
    using a b
    by (simp add: copy_free_return_def Let_def emit_emit split: option.splits prod.splits)
qed

lemma LoadModel_extends: "extends p (snd (LoadModel info p))"
proof -
  have a: "\<And>s. extends p (emit [Native_load_model s] p)"
    by (rule extends_emit) simp
  show ?thesis
    by (simp add: LoadModel_def Let_def a extends_refl
          split: option.splits list.splits js_value.splits prod.splits)
qed

lemma UnloadModel_extends: "extends p (snd (UnloadModel info p))"
proof -
  have a: "\<And>x. extends p (emit [Native_unload_model x] p)"
    by (rule extends_emit) simp
  show ?thesis
    by (simp add: UnloadModel_def a extends_refl
          split: option.splits list.splits js_value.splits prod.splits)
qed

lemma Generate_extends: "extends p (snd (Generate info p))"
proof -
  have a: "\<And>a b c d e. extends p (emit [Native_generate a b c d e] p)"
    by (rule extends_emit) simp
  have b: "\<And>a b c d e cs. extends p (snd (copy_free_return cs (emit [Native_generate a b c d e] p)))"
    by (rule extends_trans [OF a copy_free_return_extends])
  show ?thesis
    by (simp add: Generate_def Let_def a b extends_refl
          split: option.splits list.splits js_value.splits prod.splits)
qed

lemma IsAvailable_extends: "extends p (snd (IsAvailable env info p))"
proof -
  have a: "extends p (emit [Native_is_available] p)"
    by (rule extends_emit) simp
  show ?thesis
    by (simp add: IsAvailable_def a extends_refl split: option.splits prod.splits)
qed

lemma GetVersion_extends: "extends p (snd (GetVersion info p))"
proof -
  have a: "extends p (emit [Native_version] p)"
    by (rule extends_emit) simp
  have b: "\<And>cs. extends p (snd (copy_free_return cs (emit [Native_version] p)))"
    by (rule extends_trans [OF a copy_free_return_extends])
  show ?thesis
    by (simp add: GetVersion_def Let_def a b extends_refl split: option.splits prod.splits)
qed

lemma IsInitialized_extends: "extends p (snd (IsInitialized info p))"
  by (simp add: IsInitialized_def extends_refl)

lemmas op_extends =
  IsInitialized_extends LoadModel_extends UnloadModel_extends Generate_extends
  IsAvailable_extends GetVersion_extends

lemma extends_consistent: "extends p q \<Longrightarrow> consistent q = consistent p"
  unfolding extends_def by (auto simp: consistent_emit)

lemma extends_unresolved: "extends p q \<Longrightarrow> unresolved q = unresolved p"
  unfolding extends_def by (auto simp: unresolved_emit)

lemma extends_never_opened:
  "extends p q \<Longrightarrow> never_opened (trace q) \<Longrightarrow> never_opened (trace p)"
  unfolding extends_def never_opened_def by (auto simp: emit_fields)







subsection \<open>What \<open>Initialize\<close> does on each path\<close>


lemma Initialize_success:
  assumes "dylib_handle p = None"
    and "dlopen env (trace p) (c_str path) = Inr (h, lib)"
    and "node_mlx_load_model lib \<noteq> None" "node_mlx_generate lib \<noteq> None"
      "node_mlx_free_string lib \<noteq> None"
  shows "Initialize env (JsString path # rest) p =
     (Returned (Boolean_New True),
      resolve h lib (emit [DlOpen (c_str path) (Some h)]
        (p\<lparr>dylib_handle := Some h, open_libs := insert h (open_libs p)\<rparr>)))"
  using assms
  by (simp add: Initialize_def Let_def resolve_def emit_fields dlsym_eq_None)

lemma Initialize_missing_symbols:
  assumes "dylib_handle p = None"
    and "dlopen env (trace p) (c_str path) = Inr (h, lib)"
    and "node_mlx_load_model lib = None \<or> node_mlx_generate lib = None
         \<or> node_mlx_free_string lib = None"
  shows "Initialize env (JsString path # rest) p =
     (Thrown (Error (''Failed to load functions: '' @
        (if node_mlx_load_model lib = None then ''node_mlx_load_model '' else []) @
        (if node_mlx_generate lib = None then ''node_mlx_generate '' else []) @
        (if node_mlx_free_string lib = None then ''node_mlx_free_string '' else []))),
      (dlclose h (resolve h lib (emit [DlOpen (c_str path) (Some h)]
          (p\<lparr>dylib_handle := Some h, open_libs := insert h (open_libs p)\<rparr>))))
        \<lparr>dylib_handle := None\<rparr>)"
  using assms
  by (simp add: Initialize_def Let_def missing_symbols_def resolve_def emit_fields dlsym_eq_None)

lemma Initialize_consistent: "consistent p \<Longrightarrow> consistent (snd (Initialize env info p))"
  by (auto simp: Initialize_def consistent_def loaded_def resolve_def emit_fields dlclose_def
        owned_by_dlsym Let_def
      split: list.splits js_value.splits sum.splits option.splits)

lemma Initialize_unresolved:
  "unresolved p \<Longrightarrow> never_opened (trace (snd (Initialize env info p)))
     \<Longrightarrow> unresolved (snd (Initialize env info p))"
  by (auto simp: Initialize_def unresolved_def never_opened_def resolve_def emit_fields
        dlclose_def Let_def
      split: list.splits js_value.splits sum.splits option.splits if_splits)

lemma Initialize_never_opened:
  "never_opened (trace (snd (Initialize env info p))) \<Longrightarrow> never_opened (trace p)"
  by (auto simp: Initialize_def never_opened_def resolve_def emit_fields
        dlclose_def Let_def
      split: list.splits js_value.splits sum.splits option.splits if_splits)


subsection \<open>Invariants of every run\<close>

text \<open>
  In every state reached from the initial one: if \<open>dylib_handle\<close> is set, the library is
  open, the mandatory pointers are set and all pointers point into it; if no \<open>dlopen\<close>
  has succeeded, all pointers are null; successful opens and closes balance.
\<close>

lemma exec_consistent: "consistent p \<Longrightarrow> consistent (snd (exec env c p))"
  by (cases c) (simp_all add: Initialize_consistent op_extends [THEN extends_consistent])

lemma exec_never_opened:
  "never_opened (trace (snd (exec env c p))) \<Longrightarrow> never_opened (trace p)"
  by (cases c) (auto dest: Initialize_never_opened op_extends [THEN extends_never_opened])

lemma exec_unresolved:
  "unresolved p \<Longrightarrow> never_opened (trace (snd (exec env c p)))
     \<Longrightarrow> unresolved (snd (exec env c p))"
  by (cases c) (simp_all add: Initialize_unresolved op_extends [THEN extends_unresolved])


lemma run_Cons:
  "snd (run env (c # cs) p) =
     (if fst (exec env c p) = Undefined_Behaviour then snd (exec env c p)
      else snd (run env cs (snd (exec env c p))))"
  by (simp split: prod.splits outcome.splits)

lemma run_consistent: "consistent p \<Longrightarrow> consistent (snd (run env cs p))"
proof (induction cs arbitrary: p)
  case Nil
  then show ?case by simp
next
  case (Cons c cs)
  then show ?case
    unfolding run_Cons by (simp add: exec_consistent)
qed

lemma run_never_opened:
  "never_opened (trace (snd (run env cs p))) \<Longrightarrow> never_opened (trace p)"
proof (induction cs arbitrary: p)
  case Nil
  then show ?case by simp
next
  case (Cons c cs)
  then show ?case
    unfolding run_Cons by (auto dest: exec_never_opened split: if_splits)
qed

lemma run_unresolved:
  "unresolved p \<Longrightarrow> never_opened (trace (snd (run env cs p)))
     \<Longrightarrow> unresolved (snd (run env cs p))"
proof (induction cs arbitrary: p)
  case Nil
  then show ?case by simp
next
  case (Cons c cs)
  show ?case
  proof (cases "fst (exec env c p) = Undefined_Behaviour")
    case True
    with Cons.prems show ?thesis
      unfolding run_Cons by (simp add: exec_unresolved)
  next
    case False
    with Cons.prems have n: "never_opened (trace (snd (run env cs (snd (exec env c p)))))"
      unfolding run_Cons by simp
    then have "never_opened (trace (snd (exec env c p)))"
      by (rule run_never_opened)
    with Cons.prems have "unresolved (snd (exec env c p))"
      by (simp add: exec_unresolved)
    from Cons.IH [OF this n] False show ?thesis
      unfolding run_Cons by simp
  qed
qed


lemma state_after_consistent: "consistent (state_after env calls)"
  unfolding state_after_def
  by (rule run_consistent) (simp add: consistent_def initial_process_def)

lemma state_after_loaded:
  "dylib_handle (state_after env calls) = Some h \<Longrightarrow> loaded (state_after env calls) h"
  using state_after_consistent [of env calls] by (simp add: consistent_def)

lemma state_after_unresolved:
  "never_opened (trace (state_after env calls)) \<Longrightarrow> unresolved (state_after env calls)"
  unfolding state_after_def
  by (rule run_unresolved) (simp_all add: unresolved_def initial_process_def)




subsection \<open>Calls on a loaded bridge\<close>

lemma loaded_pointers:
  assumes "loaded p h"
  shows "(\<exists>f. fn_load_model p = Some (h, f)) \<and> (\<exists>f. fn_generate p = Some (h, f))
     \<and> fn_free_string p = Some (h, ()) \<and> callable p h"
  using assms
  by (auto simp: loaded_def owned_by_def callable_def split: option.splits)

lemma loaded_owned:
  assumes "loaded p h"
  shows "fn_load_model p = Some (h', f) \<Longrightarrow> h' = h"
    and "fn_generate p = Some (h', g) \<Longrightarrow> h' = h"
    and "fn_get_version p = Some (h', v) \<Longrightarrow> h' = h"
  using assms by (auto simp: loaded_def owned_by_def)

lemma copy_free_return_loaded:
  assumes "loaded p h"
  shows "copy_free_return cs (emit es p) =
     (Returned (String_New (chars cs)),
      emit (es @ [Copy_c_string (addr cs), Native_free_string (addr cs)]) p)"
  using loaded_pointers [OF assms]
  by (simp add: copy_free_return_def Let_def emit_fields callable_emit emit_emit)

lemma LoadModel_loaded:
  assumes l: "loaded p h"
    and f: "fn_load_model p = Some (h', f)"
  shows "LoadModel (JsString modelId # rest) p =
     (if sint (f (trace p) (c_str modelId)) < 0
      then Thrown (Error (''Failed to load model: '' @ modelId))
      else Returned (Number_New (f (trace p) (c_str modelId))),
      emit [Native_load_model (c_str modelId)] p)"
proof -
  from loaded_owned(1) [OF l f] have "h' = h" .
  with loaded_pointers [OF l] have "callable p h'" by simp
  with f show ?thesis
    by (simp add: LoadModel_def Let_def)
qed

lemma Generate_loaded:
  assumes l: "loaded p h"
    and f: "fn_generate p = Some (h', f)"
    and o: "parse_options (JsNumber n # JsString prompt # rest) = Some opts"
  shows "Generate (JsNumber n # JsString prompt # rest) p =
     (case f (trace p) (Int32Value n) (c_str prompt) (maxTokens opts) (temperature opts)
             (topP opts) of
        None \<Rightarrow>
          (Thrown (Error ''Generate returned null''),
           emit [Native_generate (Int32Value n) (c_str prompt) (maxTokens opts)
                   (temperature opts) (topP opts)] p)
      | Some cs \<Rightarrow>
          (Returned (String_New (chars cs)),
           emit [Native_generate (Int32Value n) (c_str prompt) (maxTokens opts)
                   (temperature opts) (topP opts),
                 Copy_c_string (addr cs), Native_free_string (addr cs)] p))"
proof -
  from loaded_owned(2) [OF l f] have "h' = h" .
  with loaded_pointers [OF l] have c: "callable p h'" by simp
  show ?thesis
    using f o c
    by (simp add: Generate_def Let_def copy_free_return_loaded [OF l] split: option.splits)
qed

lemma GetVersion_unresolved:
  "fn_get_version p = None \<Longrightarrow> GetVersion info p = (Returned (String_New ''0.1.0''), p)"
  by (simp add: GetVersion_def)

lemma GetVersion_loaded:
  assumes l: "loaded p h"
    and f: "fn_get_version p = Some (h', f)"
  shows "GetVersion info p =
     (case f (trace p) of
        None \<Rightarrow> (Returned (String_New ''0.1.0''), emit [Native_version] p)
      | Some cs \<Rightarrow>
          (Returned (String_New (chars cs)),
           emit [Native_version, Copy_c_string (addr cs), Native_free_string (addr cs)] p))"
proof -
  from loaded_owned(3) [OF l f] have "h' = h" .
  with loaded_pointers [OF l] have "callable p h'" by simp
  with f show ?thesis
    by (simp add: GetVersion_def Let_def copy_free_return_loaded [OF l] split: option.splits)
qed

subsection \<open>The options of \<open>generate\<close>\<close>

lemma As_Number_Some: "As_Number v = Some x \<longleftrightarrow> v = JsNumber x"
  by (cases v) auto

lemma parse_options_spec:
  assumes "number_if_supplied (options_of info) ''maxTokens''"
    and "number_if_supplied (options_of info) ''temperature''"
    and "number_if_supplied (options_of info) ''topP''"
  shows "parse_options info =
     Some \<lparr>maxTokens = option_int32 (options_of info) ''maxTokens'' 256,
           temperature = option_float (options_of info) ''temperature'' float_0_7f,
           topP = option_float (options_of info) ''topP'' float_0_9f\<rparr>"
proof (cases "\<exists>options rest. drop 2 info = JsObject options # rest")
  case False
  then have "parse_options info = Some default_options"
    by (auto simp: parse_options_def split: list.splits js_value.splits)
  moreover from False have "options_of info = []"
    by (auto simp: options_of_def split: list.splits js_value.splits)
  ultimately show ?thesis
    by (simp add: default_options_def option_int32_def option_float_def)
next
  case True
  then obtain options rest where d: "drop 2 info = JsObject options # rest" by blast
  then have o: "options_of info = options" by (simp add: options_of_def)
  from assms show ?thesis
    unfolding o
    by (auto simp: parse_options_def d Has_def Get_def Let_def default_options_def
          option_int32_def option_float_def number_if_supplied_def As_Number_Some
        split: option.splits)
qed

lemma map_of_filter_recognized:
  "recognized (k, v') \<Longrightarrow> map_of (filter recognized options) k = map_of options k"
  by (induction options) (auto simp: recognized_def)

lemma parse_options_filter:
  "parse_options (a # b # JsObject (filter recognized options) # rest) =
   parse_options (a # b # JsObject options # rest)"
proof -
  have "map_of (filter recognized options) ''maxTokens'' = map_of options ''maxTokens''"
    "map_of (filter recognized options) ''temperature'' = map_of options ''temperature''"
    "map_of (filter recognized options) ''topP'' = map_of options ''topP''"
    by (rule map_of_filter_recognized [where v' = JsNull], simp add: recognized_def)+
  then have
    "Has (filter recognized options) ''maxTokens'' = Has options ''maxTokens''"
    "Has (filter recognized options) ''temperature'' = Has options ''temperature''"
    "Has (filter recognized options) ''topP'' = Has options ''topP''"
    "Get (filter recognized options) ''maxTokens'' = Get options ''maxTokens''"
    "Get (filter recognized options) ''temperature'' = Get options ''temperature''"
    "Get (filter recognized options) ''topP'' = Get options ''topP''"
    by (simp_all add: Has_def Get_def)
  then show ?thesis
    by (simp add: parse_options_def Let_def)
qed

lemma Generate_filter:
  "Generate (JsNumber n # JsString prompt # JsObject (filter recognized options) # others) p =
   Generate (JsNumber n # JsString prompt # JsObject options # others) p"
  by (simp add: Generate_def parse_options_filter split: option.splits prod.splits)

subsection \<open>The sample states\<close>

lemmas sample_defs =
  sample_env_def full_lib_def minimal_lib_def nofree_lib_def state_after_def
  initial_process_def Initialize_def c_str_def resolve_def emit_def dlsym_def
  missing_symbols_def dlclose_def

lemma full_loaded_eq:
  "full_loaded =
     \<lparr>dylib_handle = Some 7, fn_load_model = Some (7, sample_load_model),
      fn_unload_model = Some (7, ()), fn_generate = Some (7, sample_generate),
      fn_free_string = Some (7, ()), fn_is_available = Some (7, \<lambda>tr. True),
      fn_get_version = Some (7, sample_version), open_libs = {7},
      trace = [DlOpen ''/lib/full.dylib'' (Some 7),
        DlSym 7 ''node_mlx_load_model'', DlSym 7 ''node_mlx_unload_model'',
        DlSym 7 ''node_mlx_generate'', DlSym 7 ''node_mlx_free_string'',
        DlSym 7 ''node_mlx_is_available'', DlSym 7 ''node_mlx_version'']\<rparr>"
  by (simp add: full_loaded_def sample_defs)

lemma minimal_loaded_eq:
  "minimal_loaded =
     \<lparr>dylib_handle = Some 8, fn_load_model = Some (8, sample_load_model),
      fn_unload_model = None, fn_generate = Some (8, sample_generate),
      fn_free_string = Some (8, ()), fn_is_available = None,
      fn_get_version = None, open_libs = {8},
      trace = [DlOpen ''/lib/minimal.dylib'' (Some 8),
        DlSym 8 ''node_mlx_load_model'', DlSym 8 ''node_mlx_unload_model'',
        DlSym 8 ''node_mlx_generate'', DlSym 8 ''node_mlx_free_string'',
        DlSym 8 ''node_mlx_is_available'', DlSym 8 ''node_mlx_version'']\<rparr>"
  by (simp add: minimal_loaded_def sample_defs)

lemma nofree_failed_eq:
  "nofree_failed =
     \<lparr>dylib_handle = None, fn_load_model = Some (9, sample_load_model),
      fn_unload_model = Some (9, ()), fn_generate = Some (9, sample_generate),
      fn_free_string = None, fn_is_available = Some (9, \<lambda>tr. True),
      fn_get_version = Some (9, sample_version), open_libs = {},
      trace = [DlOpen ''/lib/nofree.dylib'' (Some 9),
        DlSym 9 ''node_mlx_load_model'', DlSym 9 ''node_mlx_unload_model'',
        DlSym 9 ''node_mlx_generate'', DlSym 9 ''node_mlx_free_string'',
        DlSym 9 ''node_mlx_is_available'', DlSym 9 ''node_mlx_version'',
        DlClose 9]\<rparr>"
  by (simp add: nofree_failed_def sample_defs)

lemma never_loaded_eq:
  "never_loaded = initial_process\<lparr>trace := [DlOpen ''/missing.dylib'' None]\<rparr>"
  by (simp add: never_loaded_def sample_defs LoadModel_def)

section \<open>Behaviour of the exported functions\<close>

text \<open>
  Claim C1. When the library opens but a mandatory symbol is missing, \<open>Initialize\<close>
  throws an error that lists the missing names, closes the library and clears
  \<open>dylib_handle\<close> (lemma \<open>Initialize_missing_symbols\<close>). The claim goes on to say that
  every forwarding call then fails as not initialized instead of calling through a
  pointer resolved earlier. That part fails: the six function pointers are not cleared
  on that path. With a library that exports everything except \<open>node_mlx_free_string\<close>,
  \<open>initialize\<close> throws, \<open>isInitialized()\<close> is false, and \<open>loadModel\<close> passes its null
  check and calls \<open>fn_load_model\<close>, which points into the library that was just closed.
\<close>

theorem stale_pointers_after_missing_symbols:
  "run sample_env
     [Call_initialize [JsString ''/lib/nofree.dylib''], Call_isInitialized [],
      Call_loadModel [JsString ''good-id'']] initial_process =
   ([Thrown (Error ''Failed to load functions: node_mlx_free_string ''),
     Returned (Boolean_New False), Undefined_Behaviour], nofree_failed)
   \<and> fn_load_model nofree_failed = Some (9, sample_load_model)
   \<and> fn_generate nofree_failed = Some (9, sample_generate)
   \<and> 9 \<notin> open_libs nofree_failed"
  by (simp add: nofree_failed_def sample_defs IsInitialized_def LoadModel_def callable_def)

text \<open>
  Claim C2, as amended. \<open>UnloadModel\<close> begins with a null check of \<open>fn_unload_model\<close>
  that throws. In every state in which the unload entry point is not resolved,
  \<open>unloadModel\<close> with any arguments throws the error "Library not initialized", makes
  no native call and leaves the state as it was.
\<close>

theorem UnloadModel_unresolved_throws:
  "fn_unload_model p = None \<Longrightarrow>
     UnloadModel info p = (Thrown (Error ''Library not initialized''), p)"
  by (simp add: UnloadModel_def)

text \<open>
  The amended C2 on the bridge initialized with the library that has only the three
  mandatory symbols.
\<close>

theorem UnloadModel_unresolved_throws_witness:
  "fn_unload_model minimal_loaded = None \<and>
   UnloadModel [JsNumber (JsDouble 3 (Float32 0x40400000))] minimal_loaded
     = (Thrown (Error ''Library not initialized''), minimal_loaded)"
proof -
  have h: "fn_unload_model minimal_loaded = None"
    by (simp add: minimal_loaded_eq)
  show ?thesis
    using h UnloadModel_unresolved_throws [OF h] by simp
qed

text \<open>
  Claim C2 as stated fails: after a successful \<open>initialize\<close> on a library with only the
  three mandatory symbols the bridge is initialized and the unload entry point is not
  resolved, and \<open>unloadModel(3)\<close> does not return normally: it throws.
\<close>

theorem UnloadModel_unresolved_counterexample:
  "dylib_handle minimal_loaded \<noteq> None \<and> fn_unload_model minimal_loaded = None \<and>
   fst (UnloadModel [JsNumber (JsDouble 3 (Float32 0x40400000))] minimal_loaded)
     = Thrown (Error ''Library not initialized'')"
  by (simp add: minimal_loaded_eq UnloadModel_def)

text \<open>
  Claim C3. On an initialized bridge (a state reached by any sequence of calls, in which
  \<open>dylib_handle\<close> is set) and with valid arguments: when the native generate entry
  point returns null, \<open>Generate\<close> throws "Generate returned null" and the only event of
  the call is the native generate call, so nothing is freed; when it returns a non-null
  pointer, the events of the call are the native generate call, the copy of the string
  and one \<open>node_mlx_free_string\<close> on that pointer, in this order, and what is returned
  to the caller is the copied text, not the pointer.
\<close>

theorem Generate_ownership:
  assumes "p = state_after env calls"
    and "dylib_handle p \<noteq> None"
    and "info = JsNumber n # JsString prompt # rest"
    and "parse_options info = Some opts"
    and "call = Native_generate (Int32Value n) (c_str prompt) (maxTokens opts)
                  (temperature opts) (topP opts)"
  shows "\<exists>h f. fn_generate p = Some (h, f) \<and>
     (let jsonResult = f (trace p) (Int32Value n) (c_str prompt) (maxTokens opts)
                         (temperature opts) (topP opts)
      in (jsonResult = None \<longrightarrow>
            Generate info p = (Thrown (Error ''Generate returned null''), emit [call] p)) \<and>
         (\<forall>cs. jsonResult = Some cs \<longrightarrow>
            Generate info p =
              (Returned (String_New (chars cs)),
               emit [call, Copy_c_string (addr cs), Native_free_string (addr cs)] p)))"
proof -
  from assms(2) obtain h where h: "dylib_handle p = Some h" by auto
  with assms(1) have l: "loaded p h" by (simp add: state_after_loaded)
  from loaded_pointers [OF l] obtain f where f: "fn_generate p = Some (h, f)" by blast
  from Generate_loaded [OF l f] assms(3-5) f show ?thesis
    by (auto simp: Let_def)
qed

text \<open>
  C3 on the bridge initialized with the full sample library: handle 3 yields a string at
  address 4096, handle 4 yields null.
\<close>

theorem Generate_ownership_witness:
  "dylib_handle full_loaded \<noteq> None \<and>
   parse_options [JsNumber (JsDouble 3 (Float32 0x40400000)), JsString ''hello'']
     = Some default_options \<and>
   Generate [JsNumber (JsDouble 3 (Float32 0x40400000)), JsString ''hello''] full_loaded =
     (Returned (String_New ''{success:true}''),
      emit [Native_generate 3 ''hello'' 256 float_0_7f float_0_9f,
            Copy_c_string 4096, Native_free_string 4096] full_loaded) \<and>
   Generate [JsNumber (JsDouble 4 (Float32 0x40800000)), JsString ''hello''] full_loaded =
     (Thrown (Error ''Generate returned null''),
      emit [Native_generate 4 ''hello'' 256 float_0_7f float_0_9f] full_loaded)"
proof -
  have r: "full_loaded = state_after sample_env [Call_initialize [JsString ''/lib/full.dylib'']]"
    by (simp add: full_loaded_def)
  have d: "dylib_handle full_loaded \<noteq> None"
    by (simp add: full_loaded_eq)
  have o: "parse_options [JsNumber x, JsString ''hello''] = Some default_options" for x
    by (simp add: parse_options_def)
  have g: "fn_generate full_loaded = Some (7, sample_generate)"
    by (simp add: full_loaded_eq)
  have t: "trace full_loaded = trace full_loaded" ..
  from Generate_ownership [OF r d refl o refl, of "JsDouble 3 (Float32 0x40400000)"]
    Generate_ownership [OF r d refl o refl, of "JsDouble 4 (Float32 0x40800000)"]
  show ?thesis
    using d o
    by (simp add: g sample_generate_def default_options_def c_str_def)
qed

text \<open>
  Claim C4, as amended. In every state reached by a sequence of calls in which no
  \<open>dlopen\<close> has succeeded, \<open>loadModel\<close>, \<open>unloadModel\<close> and \<open>generate\<close> throw their
  "Library not initialized" error whatever the arguments, and \<open>getVersion\<close> returns the
  fallback string "0.1.0"; none of the four makes a native call or changes the state.
\<close>

theorem forwarding_before_any_open:
  assumes "p = state_after env calls"
    and "never_opened (trace p)"
  shows "LoadModel info p =
           (Thrown (Error ''Library not initialized. Call initialize() first.''), p) \<and>
         UnloadModel info p = (Thrown (Error ''Library not initialized''), p) \<and>
         Generate info p = (Thrown (Error ''Library not initialized''), p) \<and>
         GetVersion info p = (Returned (String_New ''0.1.0''), p)"
proof -
  from assms have "unresolved p"
    by (simp add: state_after_unresolved)
  then show ?thesis
    by (simp add: unresolved_def LoadModel_def UnloadModel_def Generate_def GetVersion_def)
qed

text \<open>
  The amended C4 after \<open>initialize\<close> on a path that does not open, \<open>initialize\<close> without
  arguments and a \<open>loadModel\<close>.
\<close>

theorem forwarding_before_any_open_witness:
  "never_opened (trace never_loaded) \<and>
   LoadModel [JsString ''good-id''] never_loaded =
     (Thrown (Error ''Library not initialized. Call initialize() first.''), never_loaded) \<and>
   UnloadModel [JsNumber (JsDouble 3 (Float32 0x40400000))] never_loaded =
     (Thrown (Error ''Library not initialized''), never_loaded) \<and>
   Generate [JsNumber (JsDouble 3 (Float32 0x40400000)), JsString ''hello''] never_loaded =
     (Thrown (Error ''Library not initialized''), never_loaded) \<and>
   GetVersion [] never_loaded = (Returned (String_New ''0.1.0''), never_loaded)"
proof -
  have n: "never_opened (trace never_loaded)"
    by (simp add: never_loaded_eq never_opened_def)
  from forwarding_before_any_open [OF never_loaded_def n, of "[JsString ''good-id'']"]
    forwarding_before_any_open [OF never_loaded_def n,
      of "[JsNumber (JsDouble 3 (Float32 0x40400000))]"]
    forwarding_before_any_open [OF never_loaded_def n,
      of "[JsNumber (JsDouble 3 (Float32 0x40400000)), JsString ''hello'']"]
    forwarding_before_any_open [OF never_loaded_def n, of "[]"]
  show ?thesis using n by simp
qed

text \<open>
  Claim C4 as stated fails for \<open>getVersion\<close>: before any \<open>initialize\<close> it returns
  "0.1.0" and throws nothing.
\<close>

theorem GetVersion_before_initialize_counterexample:
  "GetVersion [] (state_after sample_env []) =
     (Returned (String_New ''0.1.0''), state_after sample_env [])"
  by (simp add: state_after_def initial_process_def GetVersion_def)

text \<open>
  Claim C5. On an initialized bridge, for \<open>generate(handle, prompt, options?)\<close> where each
  of \<open>maxTokens\<close>, \<open>temperature\<close>, \<open>topP\<close> is a number if supplied: the first event
  of the call is the native generate call with the 32-bit handle, the prompt as a C
  string, and for each option the supplied value, or the default (256, 0.7f, 0.9f) when
  the key is not supplied or no options object is given; the native generate entry point
  is invoked once. Keys other than the three have no effect: removing them from the
  options object changes neither the result nor the state.
\<close>

theorem Generate_forwards_options:
  assumes "p = state_after env calls"
    and "dylib_handle p \<noteq> None"
    and "info = JsNumber n # JsString prompt # rest"
    and "number_if_supplied (options_of info) ''maxTokens''"
    and "number_if_supplied (options_of info) ''temperature''"
    and "number_if_supplied (options_of info) ''topP''"
  shows "(\<exists>tail.
            trace (snd (Generate info p)) =
              trace p @
              Native_generate (Int32Value n) (c_str prompt)
                (option_int32 (options_of info) ''maxTokens'' 256)
                (option_float (options_of info) ''temperature'' float_0_7f)
                (option_float (options_of info) ''topP'' float_0_9f) # tail \<and>
            (tail = [] \<or>
             (\<exists>a. tail = [Copy_c_string a, Native_free_string a]))) \<and>
         (\<forall>options others.
            Generate (JsNumber n # JsString prompt # JsObject (filter recognized options) # others) p =
            Generate (JsNumber n # JsString prompt # JsObject options # others) p)"
proof -
  from assms(2) obtain h where h: "dylib_handle p = Some h" by auto
  with assms(1) have l: "loaded p h" by (simp add: state_after_loaded)
  from loaded_pointers [OF l] obtain f where f: "fn_generate p = Some (h, f)" by blast
  have o: "parse_options (JsNumber n # JsString prompt # rest) =
      Some \<lparr>maxTokens = option_int32 (options_of info) ''maxTokens'' 256,
            temperature = option_float (options_of info) ''temperature'' float_0_7f,
            topP = option_float (options_of info) ''topP'' float_0_9f\<rparr>"
    using parse_options_spec [OF assms(4-6)] assms(3) by simp
  from Generate_loaded [OF l f o] assms(3)
  show ?thesis
    by (auto simp: emit_fields Generate_filter split: option.splits)
qed

text \<open>
  C5 on the full sample library: \<open>{maxTokens: 10}\<close> forwards 10, 0.7f and 0.9f, and
  \<open>{foo: 1, maxTokens: 50}\<close> behaves as \<open>{maxTokens: 50}\<close>.
\<close>

theorem Generate_forwards_options_witness:
  "dylib_handle full_loaded \<noteq> None \<and>
   number_if_supplied [(''maxTokens'', JsNumber (JsDouble 10 (Float32 0x41200000)))] ''maxTokens'' \<and>
   number_if_supplied [(''maxTokens'', JsNumber (JsDouble 10 (Float32 0x41200000)))] ''temperature'' \<and>
   number_if_supplied [(''maxTokens'', JsNumber (JsDouble 10 (Float32 0x41200000)))] ''topP'' \<and>
   (\<exists>tail. trace (snd (Generate
        [JsNumber (JsDouble 3 (Float32 0x40400000)), JsString ''hello'',
         JsObject [(''maxTokens'', JsNumber (JsDouble 10 (Float32 0x41200000)))]] full_loaded)) =
      trace full_loaded @ Native_generate 3 ''hello'' 10 float_0_7f float_0_9f # tail) \<and>
   Generate
     [JsNumber (JsDouble 3 (Float32 0x40400000)), JsString ''hello'',
      JsObject [(''maxTokens'', JsNumber (JsDouble 50 (Float32 0x42480000)))]] full_loaded =
   Generate
     [JsNumber (JsDouble 3 (Float32 0x40400000)), JsString ''hello'',
      JsObject [(''foo'', JsNumber (JsDouble 1 (Float32 0x3F800000))),
                (''maxTokens'', JsNumber (JsDouble 50 (Float32 0x42480000)))]] full_loaded"
proof -
  let ?opts = "[(''maxTokens'', JsNumber (JsDouble 10 (Float32 0x41200000)))]"
  let ?info = "[JsNumber (JsDouble 3 (Float32 0x40400000)), JsString ''hello'', JsObject ?opts]"
  have d: "dylib_handle full_loaded \<noteq> None"
    by (simp add: full_loaded_eq)
  have o: "options_of ?info = ?opts"
    by (simp add: options_of_def)
  have n: "number_if_supplied ?opts ''maxTokens''" "number_if_supplied ?opts ''temperature''"
    "number_if_supplied ?opts ''topP''"
    by (simp_all add: number_if_supplied_def)
  have v: "option_int32 ?opts ''maxTokens'' 256 = 10"
    "option_float ?opts ''temperature'' float_0_7f = float_0_7f"
    "option_float ?opts ''topP'' float_0_9f = float_0_9f"
    by (simp_all add: option_int32_def option_float_def)
  have r: "filter recognized
      [(''foo'', JsNumber (JsDouble 1 (Float32 0x3F800000))),
       (''maxTokens'', JsNumber (JsDouble 50 (Float32 0x42480000)))] =
      [(''maxTokens'', JsNumber (JsDouble 50 (Float32 0x42480000)))]"
    by (simp add: recognized_def)
  from Generate_forwards_options [OF full_loaded_def d refl, of "JsDouble 3 (Float32 0x40400000)"
      "''hello''" "[JsObject ?opts]"] n
  have "(\<exists>tail. trace (snd (Generate ?info full_loaded)) =
      trace full_loaded @ Native_generate 3 ''hello'' 10 float_0_7f float_0_9f # tail) \<and>
    (\<forall>options others.
        Generate (JsNumber (JsDouble 3 (Float32 0x40400000)) # JsString ''hello'' #
          JsObject (filter recognized options) # others) full_loaded =
        Generate (JsNumber (JsDouble 3 (Float32 0x40400000)) # JsString ''hello'' #
          JsObject options # others) full_loaded)"
    unfolding o v by (auto simp: c_str_def)
  then show ?thesis
    using d n r by metis
qed




text \<open>
  Claim C7. On an initialized bridge, \<open>loadModel\<close> with a string argument calls the
  native load entry point once; if the result is negative it throws
  "Failed to load model: " followed by the identifier, otherwise it returns the result
  unchanged.
\<close>

theorem LoadModel_result:
  assumes "p = state_after env calls"
    and "dylib_handle p \<noteq> None"
  shows "\<exists>h f. fn_load_model p = Some (h, f) \<and>
     LoadModel (JsString modelId # rest) p =
       (if sint (f (trace p) (c_str modelId)) < 0
        then Thrown (Error (''Failed to load model: '' @ modelId))
        else Returned (Number_New (f (trace p) (c_str modelId))),
        emit [Native_load_model (c_str modelId)] p)"
proof -
  from assms(2) obtain h where h: "dylib_handle p = Some h" by auto
  with assms(1) have l: "loaded p h" by (simp add: state_after_loaded)
  from loaded_pointers [OF l] obtain f where f: "fn_load_model p = Some (h, f)" by blast
  from LoadModel_loaded [OF l f] f show ?thesis by blast
qed

text \<open>
  C7 on the full sample library: "bad-id" yields -1 and an error, "good-id" yields 3.
\<close>

theorem LoadModel_result_witness:
  "dylib_handle full_loaded \<noteq> None \<and>
   LoadModel [JsString ''bad-id''] full_loaded =
     (Thrown (Error ''Failed to load model: bad-id''),
      emit [Native_load_model ''bad-id''] full_loaded) \<and>
   LoadModel [JsString ''good-id''] full_loaded =
     (Returned (Number_New 3), emit [Native_load_model ''good-id''] full_loaded)"
proof -
  have d: "dylib_handle full_loaded \<noteq> None"
    by (simp add: full_loaded_eq)
  have g: "fn_load_model full_loaded = Some (7, sample_load_model)"
    by (simp add: full_loaded_eq)
  from LoadModel_result [OF full_loaded_def d, of "''bad-id''" "[]"]
    LoadModel_result [OF full_loaded_def d, of "''good-id''" "[]"]
  show ?thesis
    using d by (simp add: g sample_load_model_def c_str_def)
qed

text \<open>
  Claim C8. When no library is loaded and \<open>dlopen\<close> fails, \<open>initialize(path)\<close> throws
  "Failed to load dylib at ", the path, ": " and the text of \<open>dlerror()\<close>; the globals are
  unchanged, \<open>isInitialized()\<close> returns false, and a later \<open>initialize\<close> with a path that
  opens a library with the three mandatory symbols returns true and sets the handle.
\<close>

theorem Initialize_dlopen_failure:
  assumes "dylib_handle p = None"
    and "dlopen env (trace p) (c_str path) = Inl diag"
    and "p' = emit [DlOpen (c_str path) None] p"
  shows "Initialize env (JsString path # rest) p =
           (Thrown (Error (''Failed to load dylib at '' @ path @ '': '' @ diag)), p') \<and>
         IsInitialized info p' = (Returned (Boolean_New False), p') \<and>
         (\<forall>path2 rest2 h lib.
            dlopen env (trace p') (c_str path2) = Inr (h, lib) \<and>
            node_mlx_load_model lib \<noteq> None \<and> node_mlx_generate lib \<noteq> None \<and>
            node_mlx_free_string lib \<noteq> None \<longrightarrow>
            fst (Initialize env (JsString path2 # rest2) p') = Returned (Boolean_New True) \<and>
            dylib_handle (snd (Initialize env (JsString path2 # rest2) p')) = Some h)"
proof -
  have d: "dylib_handle p' = None"
    using assms(1,3) by (simp add: emit_fields)
  have a: "Initialize env (JsString path # rest) p =
      (Thrown (Error (''Failed to load dylib at '' @ path @ '': '' @ diag)), p')"
    using assms by (simp add: Initialize_def update_dylib_handle_same)
  have b: "IsInitialized info p' = (Returned (Boolean_New False), p')"
    using d by (simp add: IsInitialized_def)
  have c: "fst (Initialize env (JsString path2 # rest2) p') = Returned (Boolean_New True) \<and>
      dylib_handle (snd (Initialize env (JsString path2 # rest2) p')) = Some h"
    if "dlopen env (trace p') (c_str path2) = Inr (h, lib)"
      and "node_mlx_load_model lib \<noteq> None" "node_mlx_generate lib \<noteq> None"
      "node_mlx_free_string lib \<noteq> None"
    for path2 rest2 h lib
    using Initialize_success [OF d that, of rest2]
    by (simp add: dylib_handle_resolve emit_fields)
  from a b c show ?thesis by blast
qed

text \<open>
  C8 with the sample loader: a missing path, then the full library.
\<close>

theorem Initialize_dlopen_failure_witness:
  "dylib_handle initial_process = None \<and>
   dlopen sample_env (trace initial_process) (c_str ''/missing.dylib'') = Inl ''image not found'' \<and>
   Initialize sample_env [JsString ''/missing.dylib''] initial_process =
     (Thrown (Error ''Failed to load dylib at /missing.dylib: image not found''), open_failed) \<and>
   IsInitialized [] open_failed = (Returned (Boolean_New False), open_failed) \<and>
   dlopen sample_env (trace open_failed) (c_str ''/lib/full.dylib'') = Inr (7, full_lib) \<and>
   fst (Initialize sample_env [JsString ''/lib/full.dylib''] open_failed)
     = Returned (Boolean_New True) \<and>
   dylib_handle (snd (Initialize sample_env [JsString ''/lib/full.dylib''] open_failed)) = Some 7"
proof -
  have a: "dylib_handle initial_process = None"
    by (simp add: initial_process_def)
  have b: "dlopen sample_env (trace initial_process) (c_str ''/missing.dylib'')
      = Inl ''image not found''"
    by (simp add: sample_env_def c_str_def)
  have c: "dlopen sample_env (trace open_failed) (c_str ''/lib/full.dylib'') = Inr (7, full_lib)"
    by (simp add: sample_env_def c_str_def)
  have m: "node_mlx_load_model full_lib \<noteq> None \<and> node_mlx_generate full_lib \<noteq> None \<and>
      node_mlx_free_string full_lib \<noteq> None"
    by (simp add: full_lib_def)
  from Initialize_dlopen_failure [OF a b open_failed_def, of "[]" "[]"] c m
  show ?thesis
    using a b by simp
qed

text \<open>
  Claim C9. Where \<open>fn_get_version\<close> is null \<open>getVersion\<close> returns "0.1.0", and on an
  initialized bridge it returns the fallback or the copy, freed once (lemmas
  \<open>GetVersion_unresolved\<close>, \<open>GetVersion_loaded\<close>). The claim says "in any state", and
  that fails in the state \<open>Initialize\<close> leaves behind when a mandatory symbol is
  missing: with a library that exports \<open>node_mlx_version\<close> but not
  \<open>node_mlx_free_string\<close>, \<open>getVersion\<close> calls \<open>fn_get_version\<close>, which points into the
  closed library, and \<open>fn_free_string\<close>, which it would call next, is null.
\<close>

theorem GetVersion_after_missing_symbols:
  "run sample_env [Call_initialize [JsString ''/lib/nofree.dylib''], Call_getVersion []]
     initial_process =
   ([Thrown (Error ''Failed to load functions: node_mlx_free_string ''), Undefined_Behaviour],
    nofree_failed)
   \<and> fn_get_version nofree_failed = Some (9, sample_version)
   \<and> fn_free_string nofree_failed = None
   \<and> 9 \<notin> open_libs nofree_failed"
  by (simp add: nofree_failed_def sample_defs GetVersion_def callable_def)

text \<open>
  Claim C10. On an initialized bridge, when the native load entry point returns 0,
  \<open>loadModel\<close> returns the handle 0 without error; \<open>loadModel\<close> with a string argument
  throws exactly when the native result is negative.
\<close>

theorem LoadModel_zero_handle:
  assumes "p = state_after env calls"
    and "dylib_handle p \<noteq> None"
    and "fn_load_model p = Some (h, f)"
    and "r = f (trace p) (c_str modelId)"
  shows "(r = 0 \<longrightarrow>
           LoadModel (JsString modelId # rest) p =
             (Returned (Number_New 0), emit [Native_load_model (c_str modelId)] p)) \<and>
         ((\<exists>e. fst (LoadModel (JsString modelId # rest) p) = Thrown e) \<longleftrightarrow> sint r < 0)"
proof -
  from assms(2) obtain h0 where h: "dylib_handle p = Some h0" by auto
  with assms(1) have l: "loaded p h0" by (simp add: state_after_loaded)
  from LoadModel_loaded [OF l assms(3)] assms(4) show ?thesis
    by simp
qed

text \<open>
  C10 on the full sample library, whose load entry point returns 0 for "zero-id".
\<close>

theorem LoadModel_zero_handle_witness:
  "dylib_handle full_loaded \<noteq> None \<and>
   fn_load_model full_loaded = Some (7, sample_load_model) \<and>
   sample_load_model (trace full_loaded) (c_str ''zero-id'') = 0 \<and>
   LoadModel [JsString ''zero-id''] full_loaded =
     (Returned (Number_New 0), emit [Native_load_model ''zero-id''] full_loaded)"
proof -
  have d: "dylib_handle full_loaded \<noteq> None"
    by (simp add: full_loaded_eq)
  have g: "fn_load_model full_loaded = Some (7, sample_load_model)"
    by (simp add: full_loaded_eq)
  have z: "sample_load_model (trace full_loaded) (c_str ''zero-id'') = 0"
    by (simp add: sample_load_model_def c_str_def)
  from LoadModel_zero_handle [OF full_loaded_def d g refl, of "''zero-id''" "[]"]
  show ?thesis
    using d g z by (simp add: c_str_def)
qed

end
